theory Spec2Isabelle
  imports Complex_Main
begin

section \<open>Data model\<close>

text \<open>
  The documents of \<^verbatim>\<open>server/models\<close>, as records. An ObjectId is a natural number, a
  \<^verbatim>\<open>Date\<close> is its time value (milliseconds since the epoch, an integer), and a JavaScript
  \<^verbatim>\<open>Number\<close> is an exact rational: the rounding error of binary64 arithmetic is not
  modelled. A schema path without a value (\<^verbatim>\<open>undefined\<close>) is \<open>None\<close>. Every id in
  a request is a well-formed ObjectId, and every field of a request body has the type the
  schema casts to.
  Paths that no operation on submissions reads (titles, descriptions, \<^verbatim>\<open>createdAt\<close>,
  the \<^verbatim>\<open>uploadedAt\<close> default of an attachment) are left out.
\<close>

type_synonym oid = nat
type_synonym date = int
type_synonym number = rat

datatype assignment_status = A_draft | A_published | A_closed

datatype submission_status = Draft | Submitted | Graded | Returned

record attachment =
  fileName :: string
  fileUrl :: string
  fileType :: "string option"
  fileSize :: "number option"

record assignment_doc =
  a_classroom :: oid
  a_teacher :: oid
  dueDate :: date
  totalPoints :: number
  allowLateSubmission :: bool
  lateSubmissionPenalty :: number
  a_status :: assignment_status
  a_submissions :: "oid list"
  a_updatedAt :: date

record classroom_doc =
  c_teacher :: oid
  students :: "oid list"

record submission_doc =
  s_id :: oid
  assignment :: oid
  student :: oid
  classroom :: oid
  content :: "string option"
  attachments :: "attachment list"
  status :: submission_status
  submittedAt :: "date option"
  grade :: "number option"
  feedback :: "string option"
  gradedBy :: "oid option"
  gradedAt :: "date option"
  isLate :: bool
  lateByDays :: int
  penaltyApplied :: "number option"
  updatedAt :: date

section \<open>The Submission model: pre-save hook and virtuals\<close>

definition ms_per_day :: int where
  "ms_per_day = 1000 * 60 * 60 * 24"

text \<open>
  \<^verbatim>\<open>submissionSchema.pre('save')\<close>. \<open>asgs\<close> is the Assignment collection that
  \<^verbatim>\<open>this.populate('assignment')\<close> reads, \<open>now\<close> the value of \<^verbatim>\<open>Date.now()\<close> in the
  hook, and the two flags are \<^verbatim>\<open>this.isModified('status')\<close> and
  \<^verbatim>\<open>this.isModified('grade')\<close>. \<open>late_check\<close> is lines 99 to 116. A populated
  \<^verbatim>\<open>dueDate\<close> is a required \<^verbatim>\<open>Date\<close> object, hence truthy, so the test of line 99 is that the assignment was found;
  \<open>submitDate\<close> is the \<^verbatim>\<open>submittedAt\<close> that the hook has just assigned.
\<close>

definition late_check ::
  "assignment_doc option \<Rightarrow> date \<Rightarrow> submission_doc \<Rightarrow> submission_doc" where
  "late_check populated submitDate this =
     (case populated of
        None \<Rightarrow> this
      | Some a \<Rightarrow>
          (let dueDate' = dueDate a in
           if submitDate > dueDate' then
             (let diffTime = \<bar>submitDate - dueDate'\<bar>;
                  diffDays = \<lceil>(of_int diffTime :: rat) / of_int ms_per_day\<rceil>;
                  this' = this\<lparr>isLate := True, lateByDays := diffDays\<rparr>
              in if lateSubmissionPenalty a > 0
                 then this'\<lparr>penaltyApplied := Some (lateSubmissionPenalty a * of_int diffDays)\<rparr>
                 else this')
           else this))"

definition pre_save ::
  "(oid \<rightharpoonup> assignment_doc) \<Rightarrow> date \<Rightarrow> bool \<Rightarrow> bool \<Rightarrow> submission_doc \<Rightarrow> submission_doc" where
  "pre_save asgs now isModified_status isModified_grade this0 =
     (let this1 = this0\<lparr>updatedAt := now\<rparr>;
          this2 =
            (if isModified_status \<and> status this1 = Submitted \<and> submittedAt this1 = None
             then late_check (asgs (assignment this1)) now (this1\<lparr>submittedAt := Some now\<rparr>)
             else this1)
      in if isModified_grade \<and> grade this2 \<noteq> None \<and> gradedAt this2 = None
         then (let this3 = this2\<lparr>gradedAt := Some now\<rparr>
               in if status this3 = Submitted then this3\<lparr>status := Graded\<rparr> else this3)
         else this2)"




section \<open>The store and the Mongoose operations on it\<close>

text \<open>
  The Assignment and Classroom collections are maps from \<^verbatim>\<open>_id\<close> to document. The
  Submission collection is a list of documents, so that the unique index of line 85 of
  \<^verbatim>\<open>models/Submission.js\<close> is a property to be checked and not one of the type.
\<close>

record store =
  assignments :: "oid \<rightharpoonup> assignment_doc"
  classrooms :: "oid \<rightharpoonup> classroom_doc"
  submissions :: "submission_doc list"

definition findOne ::
  "(submission_doc \<Rightarrow> bool) \<Rightarrow> submission_doc list \<Rightarrow> submission_doc option" where
  "findOne q subs = find q subs"

definition findById :: "oid \<Rightarrow> submission_doc list \<Rightarrow> submission_doc option" where
  "findById i subs = findOne (\<lambda>s. s_id s = i) subs"

text \<open>Saving a loaded document writes it over the stored one with its \<^verbatim>\<open>_id\<close>.\<close>

fun replaceOne :: "oid \<Rightarrow> submission_doc \<Rightarrow> submission_doc list \<Rightarrow> submission_doc list" where
  "replaceOne i s' [] = []"
| "replaceOne i s' (x # xs) = (if s_id x = i then s' # xs else x # replaceOne i s' xs)"

fun deleteOne :: "oid \<Rightarrow> submission_doc list \<Rightarrow> submission_doc list" where
  "deleteOne i [] = []"
| "deleteOne i (x # xs) = (if s_id x = i then xs else x # deleteOne i xs)"

text \<open>The driver gives a new document an ObjectId that no stored document has.\<close>

definition new_oid :: "submission_doc list \<Rightarrow> oid" where
  "new_oid subs = Suc (foldr max (map s_id subs) 0)"

text \<open>
  Insertion under \<^verbatim>\<open>submissionSchema.index({ assignment: 1, student: 1 }, { unique: true })\<close>:
  a second document for the same pair is a duplicate-key error (\<open>None\<close>).
\<close>

definition insertOne :: "submission_doc \<Rightarrow> submission_doc list \<Rightarrow> submission_doc list option" where
  "insertOne s subs =
     (if list_ex (\<lambda>x. assignment x = assignment s \<and> student x = student s) subs
      then None else Some (subs @ [s]))"

text \<open>
  The validators of the Submission schema, run by \<^verbatim>\<open>save\<close> before the pre-save hook;
  \<^verbatim>\<open>required\<close> rejects an empty string. The \<^verbatim>\<open>enum\<close> of \<^verbatim>\<open>status\<close> is
  \<open>status_of_string\<close> below. The whole document is checked: the paths that a handler
  does not assign passed the validators when they were stored.
\<close>

definition validate_attachment :: "attachment \<Rightarrow> bool" where
  "validate_attachment a \<longleftrightarrow> fileName a \<noteq> [] \<and> fileUrl a \<noteq> []"

definition validate_submission :: "submission_doc \<Rightarrow> bool" where
  "validate_submission s \<longleftrightarrow>
     (case content s of None \<Rightarrow> True | Some c \<Rightarrow> length c \<le> 10000) \<and>
     list_all validate_attachment (attachments s) \<and>
     (case grade s of None \<Rightarrow> True | Some g \<Rightarrow> 0 \<le> g) \<and>
     (case feedback s of None \<Rightarrow> True | Some f \<Rightarrow> length f \<le> 2000)"

definition status_of_string :: "string \<Rightarrow> submission_status option" where
  "status_of_string str =
     (if str = ''draft'' then Some Draft
      else if str = ''submitted'' then Some Submitted
      else if str = ''graded'' then Some Graded
      else if str = ''returned'' then Some Returned
      else None)"

section \<open>The submission controller\<close>

text \<open>
  A handler returns the response it sends and the store it leaves. Of a response, the
  HTTP status, the \<^verbatim>\<open>success\<close> flag, the message and the submission in the body are
  kept. The one message built from a template is a constructor of its own.
\<close>

datatype message = Text string | Grade_must_be_between_0_and number

datatype response =
  Response (http_status: nat) (success: bool) (message: message) (sent: "submission_doc option")

text \<open>The outcome kinds, by HTTP status.\<close>

definition VALIDATION_ERROR :: "response \<Rightarrow> bool" where
  "VALIDATION_ERROR r \<longleftrightarrow> http_status r = 400 \<and> \<not> success r"



definition INTERNAL :: "response \<Rightarrow> bool" where
  "INTERNAL r \<longleftrightarrow> http_status r = 500 \<and> \<not> success r"

text \<open>The clock readings of one request.\<close>

record clock =
  check_time :: date \<comment> \<open>\<^verbatim>\<open>new Date()\<close> in the handler\<close>
  save_time :: date \<comment> \<open>\<^verbatim>\<open>Date.now()\<close> in the Submission pre-save hook\<close>
  assignment_save_time :: date \<comment> \<open>\<^verbatim>\<open>Date.now()\<close> in the Assignment pre-save hook\<close>

record create_body =
  b_assignment :: "oid option"
  b_content :: "string option"
  b_attachments :: "attachment list option"
  b_status :: "string option"

text \<open>\<^verbatim>\<open>x || y\<close> on strings: an absent or empty \<open>x\<close> is falsy.\<close>

definition js_or :: "string option \<Rightarrow> string option \<Rightarrow> string option" where
  "js_or x y = (case x of None \<Rightarrow> y | Some str \<Rightarrow> if str \<noteq> [] then Some str else y)"

text \<open>\<^verbatim>\<open>status || dflt\<close>, then the \<^verbatim>\<open>enum\<close> validator: \<open>None\<close> is a value that
  \<^verbatim>\<open>save\<close> rejects.\<close>

definition status_or :: "string option \<Rightarrow> submission_status \<Rightarrow> submission_status option" where
  "status_or x dflt =
     (case x of None \<Rightarrow> Some dflt | Some str \<Rightarrow> if str \<noteq> [] then status_of_string str else Some dflt)"

text \<open>Lines 72 to 82 of \<^verbatim>\<open>createSubmission\<close>: the update of the submission found.\<close>

definition update_existing ::
  "store \<Rightarrow> create_body \<Rightarrow> clock \<Rightarrow> submission_doc \<Rightarrow> response \<times> store" where
  "update_existing db body clk submission =
     (case status_or (b_status body) (status submission) of
        None \<Rightarrow> (Response 500 False (Text ''Error creating submission'') None, db)
      | Some st \<Rightarrow>
          (let merged = submission
                 \<lparr>content := js_or (b_content body) (content submission),
                  attachments := (case b_attachments body of
                                    None \<Rightarrow> attachments submission | Some atts \<Rightarrow> atts),
                  status := st\<rparr>
           in if \<not> validate_submission merged
              then (Response 500 False (Text ''Error creating submission'') None, db)
              else
                (let saved = pre_save (assignments db) (save_time clk)
                               (st \<noteq> status submission) False merged
                 in (Response 200 True (Text ''Submission updated successfully'') (Some saved),
                     db\<lparr>submissions := replaceOne (s_id submission) saved (submissions db)\<rparr>))))"

text \<open>Lines 85 to 109: the creation of a new submission. Every path of a new document
  that the constructor sets counts as modified.\<close>

definition create_new ::
  "store \<Rightarrow> oid \<Rightarrow> oid \<Rightarrow> assignment_doc \<Rightarrow> create_body \<Rightarrow> clock \<Rightarrow> response \<times> store" where
  "create_new db uid aid assignmentDoc body clk =
     (case status_or (b_status body) Draft of
        None \<Rightarrow> (Response 500 False (Text ''Error creating submission'') None, db)
      | Some st \<Rightarrow>
          (let doc = \<lparr>s_id = new_oid (submissions db), assignment = aid, student = uid,
                      classroom = a_classroom assignmentDoc, content = b_content body,
                      attachments = (case b_attachments body of None \<Rightarrow> [] | Some atts \<Rightarrow> atts),
                      status = st, submittedAt = None, grade = None, feedback = None,
                      gradedBy = None, gradedAt = None, isLate = False, lateByDays = 0,
                      penaltyApplied = Some 0, updatedAt = save_time clk\<rparr>
           in if \<not> validate_submission doc
              then (Response 500 False (Text ''Error creating submission'') None, db)
              else
                (let saved = pre_save (assignments db) (save_time clk) True False doc
                 in case insertOne saved (submissions db) of
                      None \<Rightarrow> (Response 500 False (Text ''Error creating submission'') None, db)
                    | Some subs' \<Rightarrow>
                        (Response 201 True (Text ''Submission created successfully'') (Some saved),
                         db\<lparr>submissions := subs',
                            assignments := (assignments db)
                              (aid \<mapsto> assignmentDoc
                                 \<lparr>a_submissions := a_submissions assignmentDoc @ [s_id saved],
                                  a_updatedAt := assignment_save_time clk\<rparr>)\<rparr>))))"

text \<open>
  \<^verbatim>\<open>exports.createSubmission\<close>; \<open>uid\<close> is \<^verbatim>\<open>req.user.id\<close>. A classroom that is
  not found makes \<^verbatim>\<open>classroom.students\<close> throw, which the handler answers with 500.
\<close>

definition createSubmission ::
  "store \<Rightarrow> oid \<Rightarrow> create_body \<Rightarrow> clock \<Rightarrow> response \<times> store" where
  "createSubmission db uid body clk =
     (case b_assignment body of
        None \<Rightarrow> (Response 400 False (Text ''Please provide an assignment ID'') None, db)
      | Some aid \<Rightarrow>
     (case assignments db aid of
        None \<Rightarrow> (Response 404 False (Text ''Assignment not found'') None, db)
      | Some assignmentDoc \<Rightarrow>
     if a_status assignmentDoc \<noteq> A_published
     then (Response 400 False (Text ''Cannot submit to unpublished assignment'') None, db)
     else
     (case classrooms db (a_classroom assignmentDoc) of
        None \<Rightarrow> (Response 500 False (Text ''Error creating submission'') None, db)
      | Some classroom' \<Rightarrow>
     (let isEnrolled = list_ex (\<lambda>student'. student' = uid) (students classroom') in
      if \<not> isEnrolled
      then (Response 403 False (Text ''You are not enrolled in this classroom'') None, db)
      else if \<not> allowLateSubmission assignmentDoc \<and> check_time clk > dueDate assignmentDoc
      then (Response 400 False
              (Text ''This assignment no longer accepts submissions (past due date)'') None, db)
      else
     (case findOne (\<lambda>s. assignment s = aid \<and> student s = uid) (submissions db) of
        Some submission \<Rightarrow>
          if status submission = Graded \<or> status submission = Returned
          then (Response 400 False
                  (Text ''Cannot modify submission after it has been graded'') None, db)
          else update_existing db body clk submission
      | None \<Rightarrow> create_new db uid aid assignmentDoc body clk)))))"

record grade_body =
  g_grade :: "number option"
  g_feedback :: "string option"

text \<open>
  \<^verbatim>\<open>exports.gradeSubmission\<close>; \<open>sid\<close> is \<^verbatim>\<open>req.params.id\<close>. The submission is loaded
  with its assignment populated; an assignment that is gone populates to \<^verbatim>\<open>null\<close>, and
  reading its \<^verbatim>\<open>teacher\<close> throws.
\<close>

definition gradeSubmission ::
  "store \<Rightarrow> oid \<Rightarrow> oid \<Rightarrow> grade_body \<Rightarrow> clock \<Rightarrow> response \<times> store" where
  "gradeSubmission db uid sid body clk =
     (case findById sid (submissions db) of
        None \<Rightarrow> (Response 404 False (Text ''Submission not found'') None, db)
      | Some submission \<Rightarrow>
     (case assignments db (assignment submission) of
        None \<Rightarrow> (Response 500 False (Text ''Error grading submission'') None, db)
      | Some assignment' \<Rightarrow>
     if a_teacher assignment' \<noteq> uid
     then (Response 403 False
             (Text ''Only the assignment teacher can grade submissions'') None, db)
     else if (case g_grade body of
                None \<Rightarrow> False
              | Some g \<Rightarrow> g < 0 \<or> g > totalPoints assignment')
     then (Response 400 False (Grade_must_be_between_0_and (totalPoints assignment')) None, db)
     else
     (let assigned = submission
            \<lparr>grade := g_grade body, feedback := g_feedback body,
             gradedBy := Some uid, status := Graded\<rparr>
      in if \<not> validate_submission assigned
         then (Response 500 False (Text ''Error grading submission'') None, db)
         else
           (let saved = pre_save (assignments db) (save_time clk)
                          (status submission \<noteq> Graded) (g_grade body \<noteq> grade submission)
                          assigned
            in (Response 200 True (Text ''Submission graded successfully'') (Some saved),
                db\<lparr>submissions := replaceOne (s_id submission) saved (submissions db)\<rparr>)))))"

text \<open>\<^verbatim>\<open>exports.deleteSubmission\<close>. \<^verbatim>\<open>$pull\<close> removes every occurrence of the id and
  runs no save hook.\<close>

definition deleteSubmission :: "store \<Rightarrow> oid \<Rightarrow> oid \<Rightarrow> response \<times> store" where
  "deleteSubmission db uid sid =
     (case findById sid (submissions db) of
        None \<Rightarrow> (Response 404 False (Text ''Submission not found'') None, db)
      | Some submission \<Rightarrow>
     if student submission \<noteq> uid
     then (Response 403 False (Text ''You can only delete your own submissions'') None, db)
     else if status submission = Graded \<or> status submission = Returned
     then (Response 400 False
             (Text ''Cannot delete submission after it has been graded'') None, db)
     else
       (Response 200 True (Text ''Submission deleted successfully'') None,
        db\<lparr>assignments :=
             (case assignments db (assignment submission) of
                None \<Rightarrow> assignments db
              | Some a \<Rightarrow> (assignments db)
                  (assignment submission \<mapsto>
                     a\<lparr>a_submissions := removeAll (s_id submission) (a_submissions a)\<rparr>)),
           submissions := deleteOne (s_id submission) (submissions db)\<rparr>))"

section \<open>Example documents\<close>

text \<open>An assignment due at time 1000000 with a late penalty of 5 per day, its classroom
  with the students 3 and 4, and a draft of student 3.\<close>

definition ex_assignment :: assignment_doc where
  "ex_assignment =
     \<lparr>a_classroom = 1, a_teacher = 7, dueDate = 1000000, totalPoints = 100,
      allowLateSubmission = True, lateSubmissionPenalty = 5, a_status = A_published,
      a_submissions = [1], a_updatedAt = 0\<rparr>"

definition ex_classroom :: classroom_doc where
  "ex_classroom = \<lparr>c_teacher = 7, students = [3, 4]\<rparr>"

definition ex_submission :: submission_doc where
  "ex_submission =
     \<lparr>s_id = 1, assignment = 10, student = 3, classroom = 1, content = Some ''essay'',
      attachments = [], status = Draft, submittedAt = None, grade = None, feedback = None,
      gradedBy = None, gradedAt = None, isLate = False, lateByDays = 0,
      penaltyApplied = Some 0, updatedAt = 0\<rparr>"

definition ex_store :: store where
  "ex_store =
     \<lparr>assignments = [10 \<mapsto> ex_assignment], classrooms = [1 \<mapsto> ex_classroom],
      submissions = [ex_submission]\<rparr>"

definition ex_body :: create_body where
  "ex_body = \<lparr>b_assignment = Some 10, b_content = Some ''new text'', b_attachments = None,
               b_status = None\<rparr>"

definition ex_clock :: clock where
  "ex_clock = \<lparr>check_time = 2000000, save_time = 2000001, assignment_save_time = 2000002\<rparr>"

definition ex_graded :: submission_doc where
  "ex_graded = ex_submission
     \<lparr>status := Graded, submittedAt := Some 900000, grade := Some 80,
      gradedBy := Some 7, gradedAt := Some 1500000\<rparr>"

definition ex_submitted :: submission_doc where
  "ex_submitted = ex_submission\<lparr>status := Submitted, submittedAt := Some 900000\<rparr>"

definition ex_grade_body :: grade_body where
  "ex_grade_body = \<lparr>g_grade = Some 90, g_feedback = Some ''good''\<rparr>"

section \<open>Predicates on the store\<close>

text \<open>The key of the unique index, and the two key constraints of the Submission
  collection: the unique index and the \<^verbatim>\<open>_id\<close>.\<close>

definition pair_of :: "submission_doc \<Rightarrow> oid \<times> oid" where
  "pair_of s = (assignment s, student s)"

definition unique_index :: "store \<Rightarrow> bool" where
  "unique_index db \<longleftrightarrow> distinct (map pair_of (submissions db))"

definition primary_key :: "store \<Rightarrow> bool" where
  "primary_key db \<longleftrightarrow> distinct (map s_id (submissions db))"

text \<open>The four preconditions of \<^verbatim>\<open>createSubmission\<close> (lines 21 to 55) hold for the
  student \<open>uid\<close> and the assignment \<open>aid\<close>.\<close>

definition preconditions_pass :: "store \<Rightarrow> oid \<Rightarrow> oid \<Rightarrow> clock \<Rightarrow> bool" where
  "preconditions_pass db uid aid clk \<longleftrightarrow>
     (case assignments db aid of
        None \<Rightarrow> False
      | Some a \<Rightarrow>
          a_status a = A_published \<and>
          (case classrooms db (a_classroom a) of
             None \<Rightarrow> False
           | Some c \<Rightarrow> uid \<in> set (students c)) \<and>
          (allowLateSubmission a \<or> check_time clk \<le> dueDate a))"

text \<open>A document that was never submitted has \<^verbatim>\<open>isLate\<close> at its default.\<close>

definition late_default :: "submission_doc \<Rightarrow> bool" where
  "late_default s \<longleftrightarrow> (submittedAt s = None \<longrightarrow> \<not> isLate s)"

text \<open>The defining equations of the example documents.\<close>

lemmas ex_defs = ex_store_def ex_assignment_def ex_classroom_def ex_submission_def
  ex_body_def ex_clock_def ex_graded_def ex_submitted_def ex_grade_body_def

section \<open>Arithmetic of the derived values\<close>





section \<open>Lookups and writes in the Submission collection\<close>

lemma find_by_key:
  "distinct (map f xs) \<Longrightarrow> s \<in> set xs \<Longrightarrow> find (\<lambda>x. f x = f s) xs = Some s"
  by (induction xs) (auto simp: image_iff)

lemma find_mem: "find q xs = Some s \<Longrightarrow> s \<in> set xs \<and> q s"
  by (induction xs) (auto split: if_splits)

lemma findOne_mem: "findOne q xs = Some s \<Longrightarrow> s \<in> set xs \<and> q s"
  by (simp add: findOne_def find_mem)

lemma findById_mem: "findById i xs = Some s \<Longrightarrow> s \<in> set xs \<and> s_id s = i"
  by (auto simp: findById_def dest: findOne_mem)


lemma findOne_pair_stored:
  assumes "unique_index db" and "s \<in> set (submissions db)"
  shows "findOne (\<lambda>x. assignment x = assignment s \<and> student x = student s) (submissions db) = Some s"
proof -
  have "find (\<lambda>x. pair_of x = pair_of s) (submissions db) = Some s"
    using assms by (simp add: unique_index_def find_by_key)
  then show ?thesis
    by (simp add: findOne_def pair_of_def)
qed

lemma map_id_replaceOne: "s_id s' = i \<Longrightarrow> map s_id (replaceOne i s' xs) = map s_id xs"
  by (induction xs) auto

lemma map_key_replaceOne:
  "distinct (map s_id xs) \<Longrightarrow> s \<in> set xs \<Longrightarrow> f s' = f s \<Longrightarrow>
   map f (replaceOne (s_id s) s' xs) = map f xs"
  by (induction xs) (auto simp: image_iff)

lemma replaceOne_mem: "s \<in> set xs \<Longrightarrow> s' \<in> set (replaceOne (s_id s) s' xs)"
  by (induction xs) auto

lemma length_replaceOne: "length (replaceOne i s' xs) = length xs"
  by (induction xs) auto

lemma set_replaceOne: "set (replaceOne i s' xs) \<subseteq> insert s' (set xs)"
  by (induction xs) auto

lemma set_deleteOne: "set (deleteOne i xs) \<subseteq> set xs"
  by (induction xs) auto

lemma distinct_map_deleteOne: "distinct (map f xs) \<Longrightarrow> distinct (map f (deleteOne i xs))"
proof (induction xs)
  case Nil
  then show ?case by simp
next
  case (Cons x xs)
  have "set (deleteOne i xs) \<subseteq> set xs" for i
    by (induction xs) auto
  with Cons show ?case by (auto simp: image_iff)
qed

lemma count_by_key:
  "distinct (map f xs) \<Longrightarrow> s \<in> set xs \<Longrightarrow> length (filter (\<lambda>x. f x = f s) xs) = 1"
proof (induction xs)
  case Nil
  then show ?case by simp
next
  case (Cons x xs)
  show ?case
  proof (cases "x = s")
    case True
    have "filter (\<lambda>y. f y = f s) xs = []"
      using Cons.prems True by (auto simp: filter_empty_conv image_iff)
    with True show ?thesis by simp
  next
    case False
    with Cons show ?thesis by (auto simp: image_iff)
  qed
qed

lemma le_foldr_max: "x \<in> set xs \<Longrightarrow> x \<le> foldr max xs (0::nat)"
  by (induction xs) (auto simp: max_def)

lemma new_oid_fresh: "new_oid subs \<notin> set (map s_id subs)"
proof
  assume "new_oid subs \<in> set (map s_id subs)"
  then have "new_oid subs \<le> foldr max (map s_id subs) 0"
    by (rule le_foldr_max)
  then show False by (simp add: new_oid_def)
qed

lemma insertOne_Some:
  "insertOne s subs = Some subs' \<Longrightarrow> subs' = subs @ [s] \<and> pair_of s \<notin> set (map pair_of subs)"
  by (auto simp: insertOne_def list_ex_iff pair_of_def split: if_splits)

lemma list_ex_eq: "list_ex (\<lambda>y. y = x) xs \<longleftrightarrow> x \<in> set xs"
  by (auto simp: list_ex_iff)

section \<open>What the pre-save hook keeps\<close>

lemma pre_save_keys:
  "s_id (pre_save asgs now ms mg s) = s_id s"
  "assignment (pre_save asgs now ms mg s) = assignment s"
  "student (pre_save asgs now ms mg s) = student s"
  by (simp_all add: pre_save_def late_check_def Let_def split: option.splits)

lemma pre_save_submitted_once:
  assumes "submittedAt s = Some t"
  shows "submittedAt (pre_save asgs now ms mg s) = Some t"
    and "isLate (pre_save asgs now ms mg s) = isLate s"
    and "lateByDays (pre_save asgs now ms mg s) = lateByDays s"
    and "penaltyApplied (pre_save asgs now ms mg s) = penaltyApplied s"
  using assms by (simp_all add: pre_save_def Let_def)

lemma pre_save_no_grade:
  "content (pre_save asgs now ms False s) = content s"
  "attachments (pre_save asgs now ms False s) = attachments s"
  "status (pre_save asgs now ms False s) = status s"
  by (simp_all add: pre_save_def late_check_def Let_def split: option.splits)


lemma pre_save_late_default: "late_default s \<Longrightarrow> late_default (pre_save asgs now ms mg s)"
  by (auto simp: late_default_def pre_save_def late_check_def Let_def split: option.splits)

section \<open>The ways a handler ends\<close>

lemma js_or_valid:
  assumes "case x of None \<Rightarrow> True | Some c \<Rightarrow> length c \<le> n"
    and "case y of None \<Rightarrow> True | Some c \<Rightarrow> length c \<le> n"
  shows "case js_or x y of None \<Rightarrow> True | Some c \<Rightarrow> length c \<le> n"
  using assms by (auto simp: js_or_def split: option.splits)

lemma js_or_eq:
  "js_or x y = (case x of None \<Rightarrow> y | Some c \<Rightarrow> if c = [] then y else Some c)"
  by (simp add: js_or_def split: option.splits)

lemma status_or_cases:
  assumes "status_or x dflt = Some st"
  shows "(x = None \<or> x = Some [] \<longrightarrow> st = dflt) \<and>
         (\<forall>str. x = Some str \<and> str \<noteq> [] \<longrightarrow> status_of_string str = Some st)"
  using assms by (auto simp: status_or_def split: option.splits if_splits)

lemma update_existing_cases:
  assumes "update_existing db body clk s = (r, db')"
  shows "(\<not> success r \<and> db' = db) \<or>
         (\<exists>st. status_or (b_status body) (status s) = Some st \<and>
            (let merged = s\<lparr>content := js_or (b_content body) (content s),
                             attachments := (case b_attachments body of
                                               None \<Rightarrow> attachments s | Some atts \<Rightarrow> atts),
                             status := st\<rparr>;
                 saved = pre_save (assignments db) (save_time clk) (st \<noteq> status s) False merged
             in validate_submission merged \<and>
                r = Response 200 True (Text ''Submission updated successfully'') (Some saved) \<and>
                db' = db\<lparr>submissions := replaceOne (s_id s) saved (submissions db)\<rparr>))"
proof (cases "status_or (b_status body) (status s)")
  case None
  with assms show ?thesis by (auto simp: update_existing_def)
next
  case (Some st)
  show ?thesis
  proof (cases "validate_submission (s\<lparr>content := js_or (b_content body) (content s),
                             attachments := (case b_attachments body of
                                               None \<Rightarrow> attachments s | Some atts \<Rightarrow> atts),
                             status := st\<rparr>)")
    case True
    with assms Some show ?thesis
      by (simp add: update_existing_def Let_def)
  next
    case False
    with assms Some show ?thesis
      by (auto simp: update_existing_def Let_def)
  qed
qed

lemma update_existing_shape:
  assumes "update_existing db body clk s = (r, db')"
  shows "(\<not> success r \<and> db' = db) \<or>
         (\<exists>saved. s_id saved = s_id s \<and> pair_of saved = pair_of s \<and>
            success r \<and> http_status r = 200 \<and> message r = Text ''Submission updated successfully'' \<and>
            sent r = Some saved \<and>
            db' = db\<lparr>submissions := replaceOne (s_id s) saved (submissions db)\<rparr>)"
  using update_existing_cases [OF assms]
  by (auto simp: Let_def pre_save_keys pair_of_def)

lemma create_new_shape:
  assumes "create_new db uid aid a body clk = (r, db')"
  shows "(\<not> success r \<and> db' = db) \<or>
         (\<exists>saved. s_id saved = new_oid (submissions db) \<and> pair_of saved = (aid, uid) \<and>
            pair_of saved \<notin> set (map pair_of (submissions db)) \<and>
            success r \<and> http_status r = 201 \<and> sent r = Some saved \<and>
            submissions db' = submissions db @ [saved])"
  using assms
  by (auto simp: create_new_def Let_def pre_save_keys pair_of_def
      dest!: insertOne_Some split: option.splits if_splits)

lemma createSubmission_dispatch:
  assumes "createSubmission db uid body clk = (r, db')"
  shows "(\<not> success r \<and> db' = db) \<or>
         (\<exists>aid s. b_assignment body = Some aid \<and>
            findOne (\<lambda>x. assignment x = aid \<and> student x = uid) (submissions db) = Some s \<and>
            update_existing db body clk s = (r, db')) \<or>
         (\<exists>aid a. b_assignment body = Some aid \<and>
            findOne (\<lambda>x. assignment x = aid \<and> student x = uid) (submissions db) = None \<and>
            create_new db uid aid a body clk = (r, db'))"
  using assms
  by (auto simp: createSubmission_def Let_def split: option.splits if_splits)

lemma createSubmission_shape:
  assumes "createSubmission db uid body clk = (r, db')"
  shows "(\<not> success r \<and> db' = db) \<or>
         (\<exists>aid s saved. b_assignment body = Some aid \<and>
            findOne (\<lambda>x. assignment x = aid \<and> student x = uid) (submissions db) = Some s \<and>
            s_id saved = s_id s \<and> pair_of saved = pair_of s \<and>
            success r \<and> http_status r = 200 \<and> message r = Text ''Submission updated successfully'' \<and>
            sent r = Some saved \<and>
            db' = db\<lparr>submissions := replaceOne (s_id s) saved (submissions db)\<rparr>) \<or>
         (\<exists>aid saved. b_assignment body = Some aid \<and>
            findOne (\<lambda>x. assignment x = aid \<and> student x = uid) (submissions db) = None \<and>
            s_id saved = new_oid (submissions db) \<and> pair_of saved = (aid, uid) \<and>
            pair_of saved \<notin> set (map pair_of (submissions db)) \<and>
            success r \<and> http_status r = 201 \<and> sent r = Some saved \<and>
            submissions db' = submissions db @ [saved])"
proof (cases "b_assignment body")
  case None
  with assms show ?thesis by (auto simp: createSubmission_def)
next
  case (Some aid)
  show ?thesis
  proof (cases "findOne (\<lambda>x. assignment x = aid \<and> student x = uid) (submissions db)")
    case None
    have "(\<not> success r \<and> db' = db) \<or> (\<exists>a. create_new db uid aid a body clk = (r, db'))"
      using assms Some None
      by (auto simp: createSubmission_def Let_def split: option.splits if_splits)
    then show ?thesis
      using Some None create_new_shape by blast
  next
    case (Some s)
    have "(\<not> success r \<and> db' = db) \<or> update_existing db body clk s = (r, db')"
      using assms Some \<open>b_assignment body = Some aid\<close>
      by (auto simp: createSubmission_def Let_def split: option.splits if_splits)
    then show ?thesis
      using Some \<open>b_assignment body = Some aid\<close> update_existing_shape [of db body clk s r db']
      by blast
  qed
qed

lemma gradeSubmission_shape:
  assumes "gradeSubmission db uid sid body clk = (r, db')"
  shows "(\<not> success r \<and> db' = db) \<or>
         (\<exists>s saved. findById sid (submissions db) = Some s \<and>
            s_id saved = s_id s \<and> pair_of saved = pair_of s \<and> sent r = Some saved \<and>
            db' = db\<lparr>submissions := replaceOne (s_id s) saved (submissions db)\<rparr>)"
  using assms
  by (auto simp: gradeSubmission_def Let_def pre_save_keys pair_of_def
      split: option.splits if_splits)

lemma deleteSubmission_shape:
  assumes "deleteSubmission db uid sid = (r, db')"
  shows "(\<not> success r \<and> db' = db) \<or>
         (\<exists>i. submissions db' = deleteOne i (submissions db))"
  using assms
  by (auto simp: deleteSubmission_def split: option.splits if_splits)



section \<open>Late computation on the first submit\<close>



text \<open>The hypothesis on \<^verbatim>\<open>isLate\<close> holds of every stored document: a new document
  has the default, and the three handlers that write submissions keep it.\<close>

lemma update_existing_late_default:
  assumes "update_existing db body clk s = (r, db')"
    and "\<forall>x \<in> set (submissions db). late_default x" and "s \<in> set (submissions db)"
  shows "\<forall>x \<in> set (submissions db'). late_default x"
  using update_existing_cases [OF assms(1)]
proof (elim disjE exE conjE)
  assume "db' = db"
  with assms(2) show ?thesis by simp
next
  fix st
  assume h: "let merged = s\<lparr>content := js_or (b_content body) (content s),
                             attachments := (case b_attachments body of
                                               None \<Rightarrow> attachments s | Some atts \<Rightarrow> atts),
                             status := st\<rparr>;
                 saved = pre_save (assignments db) (save_time clk) (st \<noteq> status s) False merged
             in validate_submission merged \<and>
                r = Response 200 True (Text ''Submission updated successfully'') (Some saved) \<and>
                db' = db\<lparr>submissions := replaceOne (s_id s) saved (submissions db)\<rparr>"
  define merged where "merged = s\<lparr>content := js_or (b_content body) (content s),
      attachments := (case b_attachments body of None \<Rightarrow> attachments s | Some atts \<Rightarrow> atts),
      status := st\<rparr>"
  define saved where
    "saved = pre_save (assignments db) (save_time clk) (st \<noteq> status s) False merged"
  have "late_default merged"
    using assms(2,3) by (simp add: merged_def late_default_def)
  then have "late_default saved"
    unfolding saved_def by (rule pre_save_late_default)
  moreover have "submissions db' = replaceOne (s_id s) saved (submissions db)"
    using h by (simp add: Let_def saved_def merged_def)
  ultimately show ?thesis
    using assms(2) set_replaceOne [of "s_id s" saved "submissions db"] by auto
qed

lemma create_new_late_default:
  assumes "create_new db uid aid a body clk = (r, db')"
    and "\<forall>x \<in> set (submissions db). late_default x"
  shows "\<forall>x \<in> set (submissions db'). late_default x"
proof (cases "success r")
  case False
  with create_new_shape [OF assms(1)] assms(2) show ?thesis by auto
next
  case True
  then obtain st where st: "status_or (b_status body) Draft = Some st"
    using assms(1) by (auto simp: create_new_def split: option.splits)
  define doc where "doc = \<lparr>s_id = new_oid (submissions db), assignment = aid, student = uid,
      classroom = a_classroom a, content = b_content body,
      attachments = (case b_attachments body of None \<Rightarrow> [] | Some atts \<Rightarrow> atts),
      status = st, submittedAt = None, grade = None, feedback = None,
      gradedBy = None, gradedAt = None, isLate = False, lateByDays = 0,
      penaltyApplied = Some 0, updatedAt = save_time clk\<rparr>"
  have "late_default doc"
    by (simp add: doc_def late_default_def)
  then have "late_default (pre_save (assignments db) (save_time clk) True False doc)"
    by (rule pre_save_late_default)
  moreover have "submissions db' =
      submissions db @ [pre_save (assignments db) (save_time clk) True False doc]"
    using assms(1) True st
    by (auto simp: create_new_def Let_def doc_def dest!: insertOne_Some
        split: option.splits if_splits)
  ultimately show ?thesis
    using assms(2) by auto
qed

lemma late_default_stored:
  assumes "\<forall>x \<in> set (submissions db). late_default x"
  shows "\<forall>x \<in> set (submissions (snd (createSubmission db uid body clk))). late_default x"
    and "\<forall>x \<in> set (submissions (snd (gradeSubmission db tid sid gbody clk))). late_default x"
    and "\<forall>x \<in> set (submissions (snd (deleteSubmission db uid sid))). late_default x"
proof -
  obtain r db' where res: "createSubmission db uid body clk = (r, db')"
    by (cases "createSubmission db uid body clk") auto
  from createSubmission_dispatch [OF res]
  have "\<forall>x \<in> set (submissions db'). late_default x"
  proof (elim disjE exE conjE)
    assume "db' = db"
    with assms show ?thesis by simp
  next
    fix aid s
    assume "findOne (\<lambda>x. assignment x = aid \<and> student x = uid) (submissions db) = Some s"
      and "update_existing db body clk s = (r, db')"
    then show ?thesis
      using update_existing_late_default [of db body clk s r db'] assms
      by (auto dest: findOne_mem)
  next
    fix aid a
    assume "create_new db uid aid a body clk = (r, db')"
    then show ?thesis
      using create_new_late_default assms by blast
  qed
  with res show "\<forall>x \<in> set (submissions (snd (createSubmission db uid body clk))). late_default x"
    by simp
next
  show "\<forall>x \<in> set (submissions (snd (gradeSubmission db tid sid gbody clk))). late_default x"
  proof (cases "success (fst (gradeSubmission db tid sid gbody clk))")
    case False
    then have "snd (gradeSubmission db tid sid gbody clk) = db"
      by (auto simp: gradeSubmission_def Let_def split: option.splits if_splits)
    with assms show ?thesis by simp
  next
    case True
    then obtain s where s: "findById sid (submissions db) = Some s"
      by (auto simp: gradeSubmission_def split: option.splits)
    define assigned where "assigned = s\<lparr>grade := g_grade gbody, feedback := g_feedback gbody,
      gradedBy := Some tid, status := Graded\<rparr>"
    define saved where "saved = pre_save (assignments db) (save_time clk)
      (status s \<noteq> Graded) (g_grade gbody \<noteq> grade s) assigned"
    have "late_default assigned"
      using assms s by (auto simp: assigned_def late_default_def dest!: findById_mem)
    then have "late_default saved"
      unfolding saved_def by (rule pre_save_late_default)
    moreover have "submissions (snd (gradeSubmission db tid sid gbody clk)) =
        replaceOne (s_id s) saved (submissions db)"
      using True s
      by (auto simp: gradeSubmission_def Let_def assigned_def saved_def
          split: option.splits if_splits)
    ultimately show ?thesis
      using assms set_replaceOne [of "s_id s" saved "submissions db"] by auto
  qed
next
  obtain r db' where res: "deleteSubmission db uid sid = (r, db')"
    by (cases "deleteSubmission db uid sid") auto
  from deleteSubmission_shape [OF res] assms res
  show "\<forall>x \<in> set (submissions (snd (deleteSubmission db uid sid))). late_default x"
    using set_deleteOne by fastforce
qed

section \<open>Final grade and percentage\<close>




section \<open>One submission per assignment and student\<close>

lemma replace_keeps_keys:
  assumes "unique_index db" and "primary_key db"
    and "s \<in> set (submissions db)" and "s_id saved = s_id s" and "pair_of saved = pair_of s"
  shows "unique_index (db\<lparr>submissions := replaceOne (s_id s) saved (submissions db)\<rparr>)"
    and "primary_key (db\<lparr>submissions := replaceOne (s_id s) saved (submissions db)\<rparr>)"
  using assms
  by (simp_all add: unique_index_def primary_key_def map_key_replaceOne map_id_replaceOne)

lemma createSubmission_keeps_keys:
  assumes "unique_index db" and "primary_key db"
  shows "unique_index (snd (createSubmission db uid body clk)) \<and>
         primary_key (snd (createSubmission db uid body clk))"
proof -
  obtain r db' where res: "createSubmission db uid body clk = (r, db')"
    by (cases "createSubmission db uid body clk") auto
  from createSubmission_shape [OF res] show ?thesis
  proof (elim disjE exE conjE)
    assume "\<not> success r" "db' = db"
    with assms res show ?thesis by simp
  next
    fix aid s saved
    assume "findOne (\<lambda>x. assignment x = aid \<and> student x = uid) (submissions db) = Some s"
      and "s_id saved = s_id s" "pair_of saved = pair_of s"
      and "db' = db\<lparr>submissions := replaceOne (s_id s) saved (submissions db)\<rparr>"
    with assms res replace_keeps_keys [of db s saved] show ?thesis
      by (auto dest: findOne_mem)
  next
    fix aid saved
    assume "s_id saved = new_oid (submissions db)"
      and "pair_of saved \<notin> set (map pair_of (submissions db))"
      and "submissions db' = submissions db @ [saved]"
    with assms res new_oid_fresh [of "submissions db"] show ?thesis
      by (auto simp: unique_index_def primary_key_def)
  qed
qed

lemma gradeSubmission_keeps_keys:
  assumes "unique_index db" and "primary_key db"
  shows "unique_index (snd (gradeSubmission db uid sid body clk)) \<and>
         primary_key (snd (gradeSubmission db uid sid body clk))"
proof -
  obtain r db' where res: "gradeSubmission db uid sid body clk = (r, db')"
    by (cases "gradeSubmission db uid sid body clk") auto
  from gradeSubmission_shape [OF res] show ?thesis
  proof (elim disjE exE conjE)
    assume "\<not> success r" "db' = db"
    with assms res show ?thesis by simp
  next
    fix s saved
    assume "findById sid (submissions db) = Some s"
      and "s_id saved = s_id s" "pair_of saved = pair_of s"
      and "db' = db\<lparr>submissions := replaceOne (s_id s) saved (submissions db)\<rparr>"
    with assms res replace_keeps_keys [of db s saved] show ?thesis
      by (auto dest: findById_mem)
  qed
qed

lemma deleteSubmission_keeps_keys:
  assumes "unique_index db" and "primary_key db"
  shows "unique_index (snd (deleteSubmission db uid sid)) \<and>
         primary_key (snd (deleteSubmission db uid sid))"
proof -
  obtain r db' where res: "deleteSubmission db uid sid = (r, db')"
    by (cases "deleteSubmission db uid sid") auto
  from deleteSubmission_shape [OF res] assms res show ?thesis
    by (auto simp: unique_index_def primary_key_def distinct_map_deleteOne)
qed

lemma created_is_stored:
  assumes "unique_index db" and "primary_key db"
    and "b_assignment body = Some aid"
    and "createSubmission db uid body clk = (r, db')" and "success r"
  shows "\<exists>s \<in> set (submissions db'). pair_of s = (aid, uid)"
  using createSubmission_shape [OF assms(4)]
proof (elim disjE exE conjE)
  assume "\<not> success r"
  with assms show ?thesis by simp
next
  fix aid' s saved
  assume h: "b_assignment body = Some aid'"
    "findOne (\<lambda>x. assignment x = aid' \<and> student x = uid) (submissions db) = Some s"
    "pair_of saved = pair_of s"
    "db' = db\<lparr>submissions := replaceOne (s_id s) saved (submissions db)\<rparr>"
  then have "s \<in> set (submissions db)" "pair_of s = (aid, uid)"
    using assms(3) by (auto dest: findOne_mem simp: pair_of_def)
  with h replaceOne_mem [of s "submissions db" saved] show ?thesis
    by auto
next
  fix aid' saved
  assume "b_assignment body = Some aid'" "pair_of saved = (aid', uid)"
    "submissions db' = submissions db @ [saved]"
  with assms(3) show ?thesis by auto
qed

lemma second_call_updates:
  assumes "unique_index db" and "primary_key db"
    and "s \<in> set (submissions db)" and "pair_of s = (aid, uid)"
    and "b_assignment body = Some aid"
    and "createSubmission db uid body clk = (r, db')"
  shows "length (submissions db') = length (submissions db) \<and>
         (success r \<longrightarrow> http_status r = 200 \<and>
            message r = Text ''Submission updated successfully'')"
proof -
  have found: "findOne (\<lambda>x. assignment x = aid \<and> student x = uid) (submissions db) = Some s"
    using findOne_pair_stored [OF assms(1,3)] assms(4) by (simp add: pair_of_def)
  from createSubmission_shape [OF assms(6)] show ?thesis
  proof (elim disjE exE conjE)
    assume "\<not> success r" "db' = db"
    then show ?thesis by simp
  next
    fix aid' :: oid and s' :: submission_doc and saved :: submission_doc
    assume "http_status r = 200" "message r = Text ''Submission updated successfully''"
      "db' = db\<lparr>submissions := replaceOne (s_id s') saved (submissions db)\<rparr>"
    then show ?thesis by (simp add: length_replaceOne)
  next
    fix aid' saved
    assume "b_assignment body = Some aid'"
      "findOne (\<lambda>x. assignment x = aid' \<and> student x = uid) (submissions db) = None"
    with found assms(5) show ?thesis by simp
  qed
qed

text \<open>
  C3. In a store where no two submissions share an (assignment, student) pair or an
  \<^verbatim>\<open>_id\<close>, each of the three handlers that write submissions leaves such a store.
  After a successful \<^verbatim>\<open>createSubmission\<close>, a second call by the
  same student for the same assignment leaves exactly one submission for the pair and adds
  no document; when it succeeds it is the update (status 200). Requests are taken one after
  the other.
\<close>

theorem one_submission_per_pair:
  assumes "unique_index db" and "primary_key db"
  shows "unique_index (snd (createSubmission db uid body clk)) \<and>
         primary_key (snd (createSubmission db uid body clk)) \<and>
         unique_index (snd (gradeSubmission db tid sid gbody clk)) \<and>
         primary_key (snd (gradeSubmission db tid sid gbody clk)) \<and>
         unique_index (snd (deleteSubmission db uid sid)) \<and>
         primary_key (snd (deleteSubmission db uid sid)) \<and>
         (b_assignment body = Some aid \<and> b_assignment body' = Some aid \<and>
          success (fst (createSubmission db uid body clk)) \<longrightarrow>
            (let db1 = snd (createSubmission db uid body clk);
                 second = createSubmission db1 uid body' clk'
             in length (filter (\<lambda>s. assignment s = aid \<and> student s = uid)
                          (submissions (snd second))) = 1 \<and>
                length (submissions (snd second)) = length (submissions db1) \<and>
                (success (fst second) \<longrightarrow>
                   http_status (fst second) = 200 \<and>
                   message (fst second) = Text ''Submission updated successfully'')))"
proof (intro conjI impI)
  show "unique_index (snd (createSubmission db uid body clk))"
    and "primary_key (snd (createSubmission db uid body clk))"
    using createSubmission_keeps_keys [OF assms] by simp_all
  show "unique_index (snd (gradeSubmission db tid sid gbody clk))"
    and "primary_key (snd (gradeSubmission db tid sid gbody clk))"
    using gradeSubmission_keeps_keys [OF assms] by simp_all
  show "unique_index (snd (deleteSubmission db uid sid))"
    and "primary_key (snd (deleteSubmission db uid sid))"
    using deleteSubmission_keeps_keys [OF assms] by simp_all
next
  assume h: "b_assignment body = Some aid \<and> b_assignment body' = Some aid \<and>
    success (fst (createSubmission db uid body clk))"
  obtain r1 db1 where first: "createSubmission db uid body clk = (r1, db1)"
    by (cases "createSubmission db uid body clk") auto
  obtain r2 db2 where second: "createSubmission db1 uid body' clk' = (r2, db2)"
    by (cases "createSubmission db1 uid body' clk'") auto
  have inv1: "unique_index db1" "primary_key db1"
    using createSubmission_keeps_keys [OF assms, of uid body clk] first by simp_all
  have inv2: "unique_index db2"
    using createSubmission_keeps_keys [OF inv1, of uid body' clk'] second by simp
  obtain s where s: "s \<in> set (submissions db1)" "pair_of s = (aid, uid)"
    using created_is_stored [OF assms _ first] h first by auto
  have upd: "length (submissions db2) = length (submissions db1) \<and>
      (success r2 \<longrightarrow> http_status r2 = 200 \<and> message r2 = Text ''Submission updated successfully'')"
    using second_call_updates [OF inv1 s _ second] h by simp
  obtain s2 where s2: "s2 \<in> set (submissions db2)" "pair_of s2 = (aid, uid)"
  proof (cases "success r2")
    case True
    then show ?thesis
      using created_is_stored [OF inv1 _ second] h that by auto
  next
    case False
    then have "db2 = db1"
      using createSubmission_shape [OF second] by auto
    with s that show ?thesis by auto
  qed
  have "length (filter (\<lambda>x. pair_of x = pair_of s2) (submissions db2)) = 1"
    using inv2 s2(1) by (simp add: unique_index_def count_by_key)
  then have "length (filter (\<lambda>s. assignment s = aid \<and> student s = uid) (submissions db2)) = 1"
    using s2(2) by (simp add: pair_of_def)
  with upd first second
  show "let db1 = snd (createSubmission db uid body clk);
            second = createSubmission db1 uid body' clk'
        in length (filter (\<lambda>s. assignment s = aid \<and> student s = uid)
                     (submissions (snd second))) = 1 \<and>
           length (submissions (snd second)) = length (submissions db1) \<and>
           (success (fst second) \<longrightarrow>
              http_status (fst second) = 200 \<and>
              message (fst second) = Text ''Submission updated successfully'')"
    by (simp add: Let_def)
qed

theorem one_submission_per_pair_witness:
  "unique_index (ex_store\<lparr>submissions := []\<rparr>) \<and> primary_key (ex_store\<lparr>submissions := []\<rparr>) \<and>
   success (fst (createSubmission (ex_store\<lparr>submissions := []\<rparr>) 3 ex_body ex_clock)) \<and>
   length (filter (\<lambda>s. assignment s = 10 \<and> student s = 3)
     (submissions (snd (createSubmission
        (snd (createSubmission (ex_store\<lparr>submissions := []\<rparr>) 3 ex_body ex_clock))
        3 (ex_body\<lparr>b_status := Some ''submitted''\<rparr>) ex_clock)))) = 1"
proof -
  have h: "unique_index (ex_store\<lparr>submissions := []\<rparr>)"
    "primary_key (ex_store\<lparr>submissions := []\<rparr>)"
    by (simp_all add: unique_index_def primary_key_def)
  have ok: "success (fst (createSubmission (ex_store\<lparr>submissions := []\<rparr>) 3 ex_body ex_clock))"
    by (simp add: createSubmission_def create_new_def status_or_def validate_submission_def
        insertOne_def findOne_def Let_def ex_store_def ex_assignment_def ex_classroom_def
        ex_body_def ex_clock_def)
  have b: "b_assignment ex_body = Some 10"
    "b_assignment (ex_body\<lparr>b_status := Some ''submitted''\<rparr>) = Some 10"
    by (simp_all add: ex_body_def)
  from one_submission_per_pair [OF h, of 3 ex_body ex_clock _ _ _ 10
      "ex_body\<lparr>b_status := Some ''submitted''\<rparr>" ex_clock] ok b h
  show ?thesis
    by (simp add: Let_def)
qed

section \<open>The grading lock\<close>




section \<open>The grade bound\<close>

text \<open>
  C5. When the grade in the request is below 0 or above \<^verbatim>\<open>totalPoints\<close> of the
  assignment of the submission, \<^verbatim>\<open>gradeSubmission\<close> fails and leaves the store as it was;
  for the teacher of the assignment the failure is the 400 response whose message names
  \<^verbatim>\<open>totalPoints\<close>.
\<close>

theorem grade_bound:
  assumes "findById sid (submissions db) = Some s"
    and "assignments db (assignment s) = Some a"
    and "g_grade body = Some g" and "g < 0 \<or> g > totalPoints a"
  shows "snd (gradeSubmission db uid sid body clk) = db \<and>
         \<not> success (fst (gradeSubmission db uid sid body clk)) \<and>
         (a_teacher a = uid \<longrightarrow>
            gradeSubmission db uid sid body clk =
              (Response 400 False (Grade_must_be_between_0_and (totalPoints a)) None, db) \<and>
            VALIDATION_ERROR (fst (gradeSubmission db uid sid body clk)))"
  using assms by (auto simp: gradeSubmission_def VALIDATION_ERROR_def)

theorem grade_bound_witness:
  "gradeSubmission ex_store 7 1 (ex_grade_body\<lparr>g_grade := Some 101\<rparr>) ex_clock =
     (Response 400 False (Grade_must_be_between_0_and 100) None, ex_store)"
  using grade_bound [of 1 ex_store ex_submission ex_assignment
      "ex_grade_body\<lparr>g_grade := Some 101\<rparr>" 101 7 ex_clock]
  by (simp add: ex_store_def ex_assignment_def ex_submission_def ex_grade_body_def
      findById_def findOne_def)

section \<open>The order of the preconditions\<close>



section \<open>The merge of an update\<close>

text \<open>
  C7, as the code has it. For a stored submission in status \<^verbatim>\<open>draft\<close> or
  \<^verbatim>\<open>submitted\<close>, when the preconditions hold and the request passes the schema
  validators, the call answers 200 with the saved document and stores it in place of the old
  one. In the saved document \<^verbatim>\<open>content\<close> and \<^verbatim>\<open>status\<close> are the request's when it
  gives a non-empty string and the stored ones otherwise, and \<^verbatim>\<open>attachments\<close> is the
  request's when given and the stored list otherwise.
\<close>

theorem update_merges_fields:
  assumes "unique_index db" and "primary_key db" and "s \<in> set (submissions db)"
    and "status s = Draft \<or> status s = Submitted"
    and "b_assignment body = Some (assignment s)"
    and "preconditions_pass db (student s) (assignment s) clk"
    and "status_or (b_status body) (status s) = Some st"
    and "validate_submission s"
    and "case b_content body of None \<Rightarrow> True | Some c \<Rightarrow> length c \<le> 10000"
    and "case b_attachments body of None \<Rightarrow> True
         | Some atts \<Rightarrow> list_all validate_attachment atts"
  shows "\<exists>saved.
           createSubmission db (student s) body clk =
             (Response 200 True (Text ''Submission updated successfully'') (Some saved),
              db\<lparr>submissions := replaceOne (s_id s) saved (submissions db)\<rparr>) \<and>
           findOne (\<lambda>x. assignment x = assignment s \<and> student x = student s)
             (replaceOne (s_id s) saved (submissions db)) = Some saved \<and>
           content saved =
             (case b_content body of
                None \<Rightarrow> content s
              | Some c \<Rightarrow> if c = [] then content s else Some c) \<and>
           attachments saved =
             (case b_attachments body of None \<Rightarrow> attachments s | Some atts \<Rightarrow> atts) \<and>
           status saved = st \<and>
           (b_status body = None \<or> b_status body = Some [] \<longrightarrow> st = status s) \<and>
           (\<forall>str. b_status body = Some str \<and> str \<noteq> [] \<longrightarrow> status_of_string str = Some st)"
proof -
  define merged where "merged = s
      \<lparr>content := js_or (b_content body) (content s),
       attachments := (case b_attachments body of None \<Rightarrow> attachments s | Some atts \<Rightarrow> atts),
       status := st\<rparr>"
  define saved where
    "saved = pre_save (assignments db) (save_time clk) (st \<noteq> status s) False merged"
  have found: "findOne (\<lambda>x. assignment x = assignment s \<and> student x = student s)
      (submissions db) = Some s"
    using assms(1,3) by (rule findOne_pair_stored)
  have "case content merged of None \<Rightarrow> True | Some c \<Rightarrow> length c \<le> 10000"
    using js_or_valid [OF assms(9), of "content s"] assms(8)
    by (simp add: merged_def validate_submission_def)
  moreover have "list_all validate_attachment (attachments merged)"
    using assms(8,10) by (simp add: merged_def validate_submission_def split: option.splits)
  ultimately have valid: "validate_submission merged"
    using assms(8) by (simp add: validate_submission_def merged_def)
  have upd: "update_existing db body clk s =
      (Response 200 True (Text ''Submission updated successfully'') (Some saved),
       db\<lparr>submissions := replaceOne (s_id s) saved (submissions db)\<rparr>)"
    using assms(7) valid
    by (simp add: update_existing_def Let_def merged_def [symmetric] saved_def [symmetric])
  have res: "createSubmission db (student s) body clk =
      (Response 200 True (Text ''Submission updated successfully'') (Some saved),
       db\<lparr>submissions := replaceOne (s_id s) saved (submissions db)\<rparr>)"
    using assms(4,5,6) found upd
    by (auto simp: createSubmission_def preconditions_pass_def list_ex_eq Let_def
        split: option.splits)
  have keys: "s_id saved = s_id s" "pair_of saved = pair_of s"
    by (simp_all add: saved_def merged_def pre_save_keys pair_of_def)
  have "unique_index (db\<lparr>submissions := replaceOne (s_id s) saved (submissions db)\<rparr>)"
    using replace_keeps_keys(1) [OF assms(1,2,3) keys] .
  moreover have "saved \<in> set (replaceOne (s_id s) saved (submissions db))"
    using assms(3) by (rule replaceOne_mem)
  ultimately have
    "findOne (\<lambda>x. assignment x = assignment saved \<and> student x = student saved)
       (submissions (db\<lparr>submissions := replaceOne (s_id s) saved (submissions db)\<rparr>)) = Some saved"
    by (intro findOne_pair_stored) simp_all
  then have stored: "findOne (\<lambda>x. assignment x = assignment s \<and> student x = student s)
      (replaceOne (s_id s) saved (submissions db)) = Some saved"
    using keys(2) by (simp add: pair_of_def)
  have fields: "content saved = js_or (b_content body) (content s)"
    "attachments saved =
       (case b_attachments body of None \<Rightarrow> attachments s | Some atts \<Rightarrow> atts)"
    "status saved = st"
    by (simp_all add: saved_def pre_save_no_grade merged_def)
  from res stored fields status_or_cases [OF assms(7)] show ?thesis
    by (intro exI [of _ saved]) (simp add: js_or_eq)
qed

theorem update_merges_fields_witness:
  "unique_index ex_store \<and> primary_key ex_store \<and> ex_submission \<in> set (submissions ex_store) \<and>
   status ex_submission = Draft \<and> preconditions_pass ex_store 3 10 ex_clock \<and>
   validate_submission ex_submission \<and>
   (\<exists>saved.
      createSubmission ex_store 3 ex_body ex_clock =
        (Response 200 True (Text ''Submission updated successfully'') (Some saved),
         ex_store\<lparr>submissions := replaceOne 1 saved (submissions ex_store)\<rparr>) \<and>
      content saved = Some ''new text'' \<and> attachments saved = [] \<and> status saved = Draft)"
proof -
  have h: "unique_index ex_store" "primary_key ex_store"
    "ex_submission \<in> set (submissions ex_store)"
    "status ex_submission = Draft \<or> status ex_submission = Submitted"
    "b_assignment ex_body = Some (assignment ex_submission)"
    "preconditions_pass ex_store (student ex_submission) (assignment ex_submission) ex_clock"
    "status_or (b_status ex_body) (status ex_submission) = Some Draft"
    "validate_submission ex_submission"
    "case b_content ex_body of None \<Rightarrow> True | Some c \<Rightarrow> length c \<le> 10000"
    "case b_attachments ex_body of None \<Rightarrow> True
     | Some atts \<Rightarrow> list_all validate_attachment atts"
    by (simp_all add: ex_store_def ex_assignment_def ex_classroom_def ex_submission_def
        ex_body_def ex_clock_def unique_index_def primary_key_def preconditions_pass_def
        status_or_def validate_submission_def)
  have v: "student ex_submission = 3" "assignment ex_submission = 10" "s_id ex_submission = 1"
    "status ex_submission = Draft" "attachments ex_submission = []"
    "b_content ex_body = Some ''new text''" "b_attachments ex_body = None"
    by (simp_all add: ex_submission_def ex_body_def)
  from update_merges_fields [OF h] obtain saved where
    "createSubmission ex_store 3 ex_body ex_clock =
       (Response 200 True (Text ''Submission updated successfully'') (Some saved),
        ex_store\<lparr>submissions := replaceOne 1 saved (submissions ex_store)\<rparr>)"
    "content saved = Some ''new text''" "attachments saved = []" "status saved = Draft"
    unfolding v by auto
  with h(1,2,3,6,8) v(4) show ?thesis
    unfolding v by blast
qed

text \<open>An empty \<^verbatim>\<open>content\<close> in the request is provided and does not override.\<close>

theorem update_merges_fields_counterexample:
  "b_content (ex_body\<lparr>b_content := Some ''''\<rparr>) = Some '''' \<and>
   createSubmission ex_store 3 (ex_body\<lparr>b_content := Some ''''\<rparr>) ex_clock =
     (Response 200 True (Text ''Submission updated successfully'')
        (Some (ex_submission\<lparr>updatedAt := 2000001\<rparr>)),
      ex_store\<lparr>submissions := [ex_submission\<lparr>updatedAt := 2000001\<rparr>]\<rparr>) \<and>
   content (ex_submission\<lparr>updatedAt := 2000001\<rparr>) = Some ''essay'' \<and>
   content (ex_submission\<lparr>updatedAt := 2000001\<rparr>) \<noteq> Some ''''"
  by (simp add: ex_defs createSubmission_def update_existing_def status_or_def
      validate_submission_def js_or_def pre_save_def findOne_def Let_def)

section \<open>The submit derivation fires once\<close>

text \<open>
  C8. On a document whose \<^verbatim>\<open>submittedAt\<close> is set the hook changes none of
  \<^verbatim>\<open>submittedAt\<close>, \<^verbatim>\<open>isLate\<close>, \<^verbatim>\<open>lateByDays\<close> and \<^verbatim>\<open>penaltyApplied\<close>, whatever
  was modified. For such a stored submission, after any \<^verbatim>\<open>createSubmission\<close> call of its
  student for its assignment the stored submission of the pair has the same
  \<^verbatim>\<open>submittedAt\<close>, \<^verbatim>\<open>isLate\<close> and \<^verbatim>\<open>lateByDays\<close> as before.
\<close>

theorem submit_fires_once:
  assumes "unique_index db" and "primary_key db" and "s \<in> set (submissions db)"
    and "submittedAt s = Some t" and "b_assignment body = Some (assignment s)"
  shows "(\<forall>asgs now ms mg.
            submittedAt (pre_save asgs now ms mg s) = Some t \<and>
            isLate (pre_save asgs now ms mg s) = isLate s \<and>
            lateByDays (pre_save asgs now ms mg s) = lateByDays s \<and>
            penaltyApplied (pre_save asgs now ms mg s) = penaltyApplied s) \<and>
         (\<exists>s'. findOne (\<lambda>x. assignment x = assignment s \<and> student x = student s)
                  (submissions (snd (createSubmission db (student s) body clk))) = Some s' \<and>
                submittedAt s' = Some t \<and> isLate s' = isLate s \<and>
                lateByDays s' = lateByDays s \<and> penaltyApplied s' = penaltyApplied s)"
proof
  show "\<forall>asgs now ms mg.
            submittedAt (pre_save asgs now ms mg s) = Some t \<and>
            isLate (pre_save asgs now ms mg s) = isLate s \<and>
            lateByDays (pre_save asgs now ms mg s) = lateByDays s \<and>
            penaltyApplied (pre_save asgs now ms mg s) = penaltyApplied s"
    using assms(4) by (simp add: pre_save_submitted_once)
next
  have found: "findOne (\<lambda>x. assignment x = assignment s \<and> student x = student s)
      (submissions db) = Some s"
    using assms(1,3) by (rule findOne_pair_stored)
  obtain r db' where res: "createSubmission db (student s) body clk = (r, db')"
    by (cases "createSubmission db (student s) body clk") auto
  have "(\<not> success r \<and> db' = db) \<or> update_existing db body clk s = (r, db')"
    using res found assms(5)
    by (auto simp: createSubmission_def Let_def split: option.splits if_splits)
  then consider "db' = db"
    | st where "status_or (b_status body) (status s) = Some st"
      "db' = db\<lparr>submissions := replaceOne (s_id s)
         (pre_save (assignments db) (save_time clk) (st \<noteq> status s) False
            (s\<lparr>content := js_or (b_content body) (content s),
               attachments := (case b_attachments body of
                                 None \<Rightarrow> attachments s | Some atts \<Rightarrow> atts),
               status := st\<rparr>)) (submissions db)\<rparr>"
    using update_existing_cases [of db body clk s r db'] by (auto simp: Let_def)
  then show "\<exists>s'. findOne (\<lambda>x. assignment x = assignment s \<and> student x = student s)
                  (submissions (snd (createSubmission db (student s) body clk))) = Some s' \<and>
                submittedAt s' = Some t \<and> isLate s' = isLate s \<and>
                lateByDays s' = lateByDays s \<and> penaltyApplied s' = penaltyApplied s"
  proof cases
    case 1
    with res found assms(4) show ?thesis by simp
  next
    case 2
    define merged where "merged = s
      \<lparr>content := js_or (b_content body) (content s),
       attachments := (case b_attachments body of None \<Rightarrow> attachments s | Some atts \<Rightarrow> atts),
       status := st\<rparr>"
    define saved where
      "saved = pre_save (assignments db) (save_time clk) (st \<noteq> status s) False merged"
    have db': "db' = db\<lparr>submissions := replaceOne (s_id s) saved (submissions db)\<rparr>"
      using 2(2) by (simp add: saved_def merged_def)
    have keys: "s_id saved = s_id s" "pair_of saved = pair_of s"
      by (simp_all add: saved_def merged_def pre_save_keys pair_of_def)
    have "unique_index db'"
      unfolding db' using replace_keeps_keys(1) [OF assms(1,2,3) keys] .
    moreover have "saved \<in> set (submissions db')"
      unfolding db' using assms(3) by (simp add: replaceOne_mem)
    ultimately have
      "findOne (\<lambda>x. assignment x = assignment saved \<and> student x = student saved)
         (submissions db') = Some saved"
      by (rule findOne_pair_stored)
    then have stored: "findOne (\<lambda>x. assignment x = assignment s \<and> student x = student s)
        (submissions db') = Some saved"
      using keys(2) by (simp add: pair_of_def)
    have "submittedAt merged = Some t"
      using assms(4) by (simp add: merged_def)
    then have "submittedAt saved = Some t" "isLate saved = isLate s"
      "lateByDays saved = lateByDays s" "penaltyApplied saved = penaltyApplied s"
      unfolding saved_def by (simp_all add: pre_save_submitted_once merged_def)
    with stored res show ?thesis by simp
  qed
qed

theorem submit_fires_once_witness:
  "unique_index (ex_store\<lparr>submissions := [ex_submitted]\<rparr>) \<and>
   primary_key (ex_store\<lparr>submissions := [ex_submitted]\<rparr>) \<and>
   submittedAt ex_submitted = Some 900000 \<and>
   (\<exists>s'. findOne (\<lambda>x. assignment x = 10 \<and> student x = 3)
            (submissions (snd (createSubmission (ex_store\<lparr>submissions := [ex_submitted]\<rparr>)
               3 ex_body ex_clock))) = Some s' \<and>
          submittedAt s' = Some 900000 \<and> isLate s' = False \<and> lateByDays s' = 0)"
proof -
  have h: "unique_index (ex_store\<lparr>submissions := [ex_submitted]\<rparr>)"
    "primary_key (ex_store\<lparr>submissions := [ex_submitted]\<rparr>)"
    "ex_submitted \<in> set (submissions (ex_store\<lparr>submissions := [ex_submitted]\<rparr>))"
    "submittedAt ex_submitted = Some 900000"
    "b_assignment ex_body = Some (assignment ex_submitted)"
    by (simp_all add: unique_index_def primary_key_def ex_submitted_def ex_submission_def
        ex_body_def)
  have v: "assignment ex_submitted = 10" "student ex_submitted = 3"
    "isLate ex_submitted = False" "lateByDays ex_submitted = 0"
    by (simp_all add: ex_submitted_def ex_submission_def)
  from submit_fires_once [OF h, of ex_clock] h(1,2,4) show ?thesis
    unfolding v by blast
qed

section \<open>Grading\<close>




section \<open>Closed assignments\<close>

text \<open>
  C10. For a request that names an assignment whose status is \<^verbatim>\<open>closed\<close>,
  \<^verbatim>\<open>createSubmission\<close> answers 400 with the message for unpublished assignments and
  leaves the store as it was; the response is the one sent when the same assignment is a
  draft.
\<close>

theorem closed_assignment_rejected:
  assumes "b_assignment body = Some aid" and "assignments db aid = Some a"
    and "a_status a = A_closed"
  shows "createSubmission db uid body clk =
           (Response 400 False (Text ''Cannot submit to unpublished assignment'') None, db) \<and>
         VALIDATION_ERROR (fst (createSubmission db uid body clk)) \<and>
         fst (createSubmission (db\<lparr>assignments := (assignments db)(aid \<mapsto> a\<lparr>a_status := A_draft\<rparr>)\<rparr>)
                uid body clk) = fst (createSubmission db uid body clk)"
  using assms by (simp add: createSubmission_def VALIDATION_ERROR_def)

theorem closed_assignment_rejected_witness:
  "createSubmission (ex_store\<lparr>assignments := [10 \<mapsto> ex_assignment\<lparr>a_status := A_closed\<rparr>]\<rparr>)
     3 ex_body ex_clock =
   (Response 400 False (Text ''Cannot submit to unpublished assignment'') None,
    ex_store\<lparr>assignments := [10 \<mapsto> ex_assignment\<lparr>a_status := A_closed\<rparr>]\<rparr>)"
  using closed_assignment_rejected [of ex_body 10
      "ex_store\<lparr>assignments := [10 \<mapsto> ex_assignment\<lparr>a_status := A_closed\<rparr>]\<rparr>"
      "ex_assignment\<lparr>a_status := A_closed\<rparr>" 3 ex_clock]
  by (simp add: ex_body_def ex_store_def ex_assignment_def)

end
